theory Spec2Isabelle
  imports Main
begin

section \<open>Data model\<close>

text \<open>
  The matching subsystem of togeeat-be: \<^verbatim>\<open>matching.controller.ts\<close> (the request
  handlers) and \<^verbatim>\<open>matching.repository.ts\<close> (the Prisma queries). Timestamps are
  milliseconds since the epoch (\<^verbatim>\<open>Date.valueOf()\<close>), identifiers and durations are
  integers, an absent (\<^verbatim>\<open>undefined\<close> or \<^verbatim>\<open>null\<close>) field is \<open>None\<close>.
\<close>

datatype MatchingStatus = OPEN | CLOSED

datatype MatchingType = QUICK | YOTEI

text \<open>
  Modelled from the spec: \<^verbatim>\<open>dto/create-matching.dto.ts\<close> is not among the sources. The
  controller reads exactly these three fields of it; the descriptive fields play no part.
\<close>

record CreateMatchingDto =
  matchingType :: MatchingType
  duration :: "int option"
  matchingDate :: "int option"

text \<open>
  Modelled from the spec: \<^verbatim>\<open>entities/matching.entity.ts\<close> and the Prisma schema are not
  among the sources. A row of the \<^verbatim>\<open>matching\<close> table is the data of the create input
  (\<^verbatim>\<open>...data\<close>) with the owner, the assigned id, the status and the creation time.
\<close>

record MatchingEntity = CreateMatchingDto +
  id' :: int
  ownerId :: int
  status :: MatchingStatus
  createdAt :: int

text \<open>A row of the join table \<^verbatim>\<open>userMatching\<close>, with the composite key \<^verbatim>\<open>userId_matchingId\<close>.\<close>

record UserMatching =
  userId :: int
  matchingId :: int

text \<open>The two tables the Prisma client reads and writes, rows in storage order.\<close>

record prisma =
  matching :: "MatchingEntity list"
  userMatching :: "UserMatching list"

text \<open>
  The exceptions a handler can end with. The first three are the Nest exceptions the
  controller throws, with their message; \<open>ConflictException\<close> is the uniqueness violation
  of the join table, \<open>ForeignKeyConstraint\<close> is what an insert into the join table
  raises when no matching has the given id, and \<open>RecordNotFound\<close> is what Prisma's
  \<^verbatim>\<open>delete\<close> raises when no row has the given unique key.
\<close>

datatype error =
    BadRequestException string
  | NotFoundException
  | ForbiddenException string
  | ConflictException
  | ForeignKeyConstraint
  | RecordNotFound

text \<open>
  A JavaScript number as far as the handlers look at it: the result of the unary plus
  on a query parameter is \<open>NaN\<close> for an absent parameter (\<^verbatim>\<open>+undefined\<close>) and for
  text that is no numeral, and a number otherwise.
\<close>

datatype number = NaN | Num int

text \<open>\<^verbatim>\<open>!x\<close> on an optional number: true for an absent value and for zero.\<close>

definition not_opt :: "int option \<Rightarrow> bool" where
  "not_opt x = (case x of None \<Rightarrow> True | Some n \<Rightarrow> n = 0)"

text \<open>
  Modelled from the spec: \<^verbatim>\<open>common/pipes/search-query.pipe.ts\<close> is not among the sources.
  \<open>limit\<close> and \<open>offset\<close> are the page bounds the pipe delivers, as naturals; \<open>status'\<close>
  is the optional status filter, \<open>otherFilters\<close> the conjunction of the owner-name and
  date-bound predicates of the query (the spec leaves their bound conventions open) and
  \<open>sort\<close> the key of the requested order.
\<close>

record SearchQueryDto =
  limit :: nat
  offset :: nat
  status' :: "MatchingStatus option"
  otherFilters :: "MatchingEntity \<Rightarrow> bool"
  sort :: "MatchingEntity \<Rightarrow> int"

text \<open>
  Modelled from the spec: \<^verbatim>\<open>common/dto/pagination.dto.ts\<close> is not among the sources;
  \<^verbatim>\<open>new PaginationDto(total, items)\<close> is the envelope \<open>{total, items}\<close>.
\<close>

record PaginationDto =
  total' :: nat
  items :: "MatchingEntity list"

section \<open>The repository\<close>

text \<open>The id a new row gets: one more than the largest id in the table.\<close>

definition next_id :: "MatchingEntity list \<Rightarrow> int" where
  "next_id rows = foldr max (map id' rows) 0 + 1"

text \<open>
  \<^verbatim>\<open>create\<close>: inserts the row \<^verbatim>\<open>{...data, ownerId}\<close>; the schema's defaults (modelled
  from the spec: the Prisma schema is not among the sources) give it a fresh id, the
  status \<open>OPEN\<close> and the creation time.
\<close>

definition MatchingRepository_create ::
  "int \<Rightarrow> int \<Rightarrow> CreateMatchingDto \<Rightarrow> prisma \<Rightarrow> MatchingEntity \<times> prisma" where
  "MatchingRepository_create now owner data db =
     (let m = \<lparr>matchingType = matchingType data, duration = duration data,
                matchingDate = matchingDate data, id' = next_id (matching db),
                ownerId = owner, status = OPEN, createdAt = now\<rparr>
      in (m, db\<lparr>matching := matching db @ [m]\<rparr>))"

text \<open>
  \<^verbatim>\<open>listActive\<close>: one transaction that counts the rows with \<^verbatim>\<open>status = OPEN\<close> and
  fetches them ordered by \<open>sortParam\<close>, skipping \<open>offset\<close> and taking \<open>limit\<close>. The
  order is a stable sort on a key, so rows with equal keys stay in storage order.
\<close>

definition MatchingRepository_listActive ::
  "SearchQueryDto \<Rightarrow> (MatchingEntity \<Rightarrow> 'k::linorder) \<Rightarrow> prisma \<Rightarrow> PaginationDto" where
  "MatchingRepository_listActive q sortParam db =
     \<lparr>total' = length (filter (\<lambda>m. status m = OPEN) (matching db)),
      items = take (limit q) (drop (offset q)
                (sort_key sortParam (filter (\<lambda>m. status m = OPEN) (matching db))))\<rparr>"

text \<open>\<^verbatim>\<open>getMatchingOfUser\<close>: the same envelope over the rows a user owns, unsorted.\<close>

definition MatchingRepository_getMatchingOfUser ::
  "int \<Rightarrow> SearchQueryDto \<Rightarrow> prisma \<Rightarrow> PaginationDto" where
  "MatchingRepository_getMatchingOfUser i q db =
     \<lparr>total' = length (filter (\<lambda>m. ownerId m = i) (matching db)),
      items = take (limit q) (drop (offset q) (filter (\<lambda>m. ownerId m = i) (matching db)))\<rparr>"

text \<open>\<^verbatim>\<open>findOne\<close>: the first row with the id, with its membership rows, or \<^verbatim>\<open>null\<close>.\<close>

definition MatchingRepository_findOne ::
  "int \<Rightarrow> prisma \<Rightarrow> (MatchingEntity \<times> UserMatching list) option" where
  "MatchingRepository_findOne i db =
     (case find (\<lambda>m. id' m = i) (matching db) of
        None \<Rightarrow> None
      | Some m \<Rightarrow> Some (m, filter (\<lambda>r. matchingId r = i) (userMatching db)))"

text \<open>
  \<^verbatim>\<open>addUserToMatching\<close>: inserts the membership row. The composite key refuses a
  second row for the same pair, and the foreign key refuses a row for a matching id that
  no matching has; in both cases nothing is inserted. The users table is outside the
  model.
\<close>

definition MatchingRepository_addUserToMatching ::
  "int \<Rightarrow> int \<Rightarrow> prisma \<Rightarrow> (error + unit) \<times> prisma" where
  "MatchingRepository_addUserToMatching mid uid db =
     (if \<lparr>userId = uid, matchingId = mid\<rparr> \<in> set (userMatching db)
      then (Inl ConflictException, db)
      else if mid \<notin> set (map id' (matching db))
      then (Inl ForeignKeyConstraint, db)
      else (Inr (), db\<lparr>userMatching := userMatching db @ [\<lparr>userId = uid, matchingId = mid\<rparr>]\<rparr>))"

text \<open>
  \<^verbatim>\<open>removeUserFromMatching\<close>: deletes the membership row with the composite key, and
  fails when there is none.
\<close>

definition MatchingRepository_removeUserFromMatching ::
  "int \<Rightarrow> int \<Rightarrow> prisma \<Rightarrow> (error + unit) \<times> prisma" where
  "MatchingRepository_removeUserFromMatching mid uid db =
     (if \<lparr>userId = uid, matchingId = mid\<rparr> \<in> set (userMatching db)
      then (Inr (), db\<lparr>userMatching :=
              filter (\<lambda>r. r \<noteq> \<lparr>userId = uid, matchingId = mid\<rparr>) (userMatching db)\<rparr>)
      else (Inl RecordNotFound, db))"

text \<open>
  \<^verbatim>\<open>updateStatus\<close>: the bulk update
  \<^verbatim>\<open>where: {matchingDate: {lte: new Date()}, status: OPEN}, data: {status: CLOSED}\<close>.
  A row without a matching date does not satisfy \<^verbatim>\<open>lte\<close>.
\<close>

definition updateStatus_where :: "int \<Rightarrow> MatchingEntity \<Rightarrow> bool" where
  "updateStatus_where now m =
     ((case matchingDate m of None \<Rightarrow> False | Some d \<Rightarrow> d \<le> now) \<and> status m = OPEN)"

definition MatchingRepository_updateStatus :: "int \<Rightarrow> prisma \<Rightarrow> prisma" where
  "MatchingRepository_updateStatus now db =
     db\<lparr>matching :=
          map (\<lambda>m. if updateStatus_where now m then m\<lparr>status := CLOSED\<rparr> else m) (matching db)\<rparr>"

text \<open>
  \<^verbatim>\<open>delete\<close>: deletes the row with the id, and fails when there is none. Modelled from
  the spec (the Prisma schema is not among the sources): the delete cascades to the
  membership rows of the matching.
\<close>

definition MatchingRepository_delete :: "int \<Rightarrow> prisma \<Rightarrow> (error + unit) \<times> prisma" where
  "MatchingRepository_delete i db =
     (if i \<in> set (map id' (matching db))
      then (Inr (), \<lparr>matching = filter (\<lambda>m. id' m \<noteq> i) (matching db),
                     userMatching = filter (\<lambda>r. matchingId r \<noteq> i) (userMatching db)\<rparr>)
      else (Inl RecordNotFound, db))"

section \<open>The service\<close>

text \<open>
  Modelled from the spec: \<^verbatim>\<open>matching.service.ts\<close> is not among the sources. The spec
  has \<open>create\<close> persist the new matching through the storage gateway and return it.
\<close>

definition MatchingService_create ::
  "int \<Rightarrow> int \<Rightarrow> CreateMatchingDto \<Rightarrow> prisma \<Rightarrow> MatchingEntity \<times> prisma" where
  "MatchingService_create now owner data db = MatchingRepository_create now owner data db"

text \<open>
  Modelled from the spec: \<^verbatim>\<open>findOne\<close> of the absent service returns the matching with
  its membership list, or a not-found signal, and changes nothing.
\<close>

definition MatchingService_findOne ::
  "int \<Rightarrow> prisma \<Rightarrow> (MatchingEntity \<times> UserMatching list) option" where
  "MatchingService_findOne i db = MatchingRepository_findOne i db"

text \<open>
  Modelled from the spec: \<^verbatim>\<open>joinUser\<close> of the absent service fails with the not-found
  error when the matching does not exist, and otherwise creates the membership row, which
  the storage refuses with the conflict error when the pair is already there.
\<close>

definition MatchingService_joinUser :: "int \<Rightarrow> int \<Rightarrow> prisma \<Rightarrow> (error + unit) \<times> prisma" where
  "MatchingService_joinUser mid uid db =
     (case MatchingRepository_findOne mid db of
        None \<Rightarrow> (Inl NotFoundException, db)
      | Some _ \<Rightarrow> MatchingRepository_addUserToMatching mid uid db)"

text \<open>
  Modelled from the spec: \<^verbatim>\<open>removeUser\<close> of the absent service removes the membership
  row of the pair through the storage gateway.
\<close>

definition MatchingService_removeUser :: "int \<Rightarrow> int \<Rightarrow> prisma \<Rightarrow> (error + unit) \<times> prisma" where
  "MatchingService_removeUser mid uid db = MatchingRepository_removeUserFromMatching mid uid db"

text \<open>
  Modelled from the spec: \<^verbatim>\<open>remove\<close> of the absent service deletes the matching
  through the storage gateway.
\<close>

definition MatchingService_remove :: "int \<Rightarrow> prisma \<Rightarrow> (error + unit) \<times> prisma" where
  "MatchingService_remove i db = MatchingRepository_delete i db"

text \<open>
  Modelled from the spec: the predicate of \<^verbatim>\<open>list\<close> of the absent service. The status
  filter defaults to \<open>OPEN\<close> when the query omits it.
\<close>

definition list_where :: "SearchQueryDto \<Rightarrow> MatchingEntity \<Rightarrow> bool" where
  "list_where q m =
     (status m = (case status' q of None \<Rightarrow> OPEN | Some s \<Rightarrow> s) \<and> otherFilters q m)"

text \<open>
  Modelled from the spec: \<^verbatim>\<open>list\<close> of the absent service counts the rows that satisfy
  the predicate and fetches one page of them in the requested order, in one transaction,
  as the repository's \<^verbatim>\<open>listActive\<close> does for its fixed predicate.
\<close>

definition MatchingService_list :: "SearchQueryDto \<Rightarrow> prisma \<Rightarrow> PaginationDto" where
  "MatchingService_list q db =
     \<lparr>total' = length (filter (list_where q) (matching db)),
      items = take (limit q) (drop (offset q)
                (sort_key (sort q) (filter (list_where q) (matching db))))\<rparr>"

section \<open>The controller\<close>

text \<open>
  Each handler takes the clock reading \<open>now\<close> (\<^verbatim>\<open>new Date()\<close>) where it reads one, the
  verified caller id \<^verbatim>\<open>req.user.id\<close>, its parameters and the database, and returns the
  exception it throws (\<open>Inl\<close>) or its result (\<open>Inr\<close>) together with the database it
  leaves behind. The path parameter \<open>i\<close> is the value of \<^verbatim>\<open>+id\<close>.
\<close>

text \<open>
  \<^verbatim>\<open>create\<close>: three checks in the source's order, then the service call.
  \<^verbatim>\<open>!duration\<close> holds for an absent duration and for zero; \<^verbatim>\<open>!matchingDate\<close> holds
  for an absent date only (a \<^verbatim>\<open>Date\<close> object is never falsy);
  \<^verbatim>\<open>duration && duration < 0\<close> holds for a present, non-zero, negative duration.
\<close>

definition MatchingController_create ::
  "int \<Rightarrow> int \<Rightarrow> CreateMatchingDto \<Rightarrow> prisma \<Rightarrow> (error + MatchingEntity) \<times> prisma" where
  "MatchingController_create now currentUserId createMatchingDto db =
     (if (matchingType createMatchingDto = QUICK \<and> not_opt (duration createMatchingDto)) \<or>
         (matchingType createMatchingDto = YOTEI \<and> matchingDate createMatchingDto = None)
      then (Inl (BadRequestException ''Missing duration or matching date''), db)
      else if (case duration createMatchingDto of None \<Rightarrow> False | Some d \<Rightarrow> d \<noteq> 0 \<and> d < 0)
      then (Inl (BadRequestException ''Invalid duration''), db)
      else if (case matchingDate createMatchingDto of None \<Rightarrow> False | Some t \<Rightarrow> t < now)
      then (Inl (BadRequestException ''Invalid matching date''), db)
      else (case MatchingService_create now currentUserId createMatchingDto db of
              (m, db') \<Rightarrow> (Inr m, db')))"

text \<open>\<^verbatim>\<open>list\<close>: hands the query to the service.\<close>

definition MatchingController_list :: "SearchQueryDto \<Rightarrow> prisma \<Rightarrow> PaginationDto" where
  "MatchingController_list query db = MatchingService_list query db"

text \<open>\<^verbatim>\<open>joinMatching\<close>: hands the matching id and the caller id to the service.\<close>

definition MatchingController_joinMatching ::
  "int \<Rightarrow> int \<Rightarrow> prisma \<Rightarrow> (error + unit) \<times> prisma" where
  "MatchingController_joinMatching currentUserId i db = MatchingService_joinUser i currentUserId db"

text \<open>
  \<^verbatim>\<open>leaveMatching\<close>: \<open>uid\<close> is the value of \<^verbatim>\<open>+userId\<close>, and \<^verbatim>\<open>!uid\<close> holds
  for \<open>NaN\<close> and for zero. Neither call of \<^verbatim>\<open>removeUser\<close> is awaited: the handler
  does not see whether the removal failed, so the model keeps the database the removal
  leaves and drops its result.
\<close>

definition MatchingController_leaveMatching ::
  "int \<Rightarrow> int \<Rightarrow> number \<Rightarrow> prisma \<Rightarrow> (error + unit) \<times> prisma" where
  "MatchingController_leaveMatching currentUserId i uid db =
     (case MatchingService_findOne i db of
        None \<Rightarrow> (Inl NotFoundException, db)
      | Some (m, members) \<Rightarrow>
          if currentUserId = ownerId m
          then (case uid of
                  NaN \<Rightarrow> (Inl (BadRequestException ''missing member id''), db)
                | Num n \<Rightarrow>
                    if n = 0 then (Inl (BadRequestException ''missing member id''), db)
                    else (Inr (), snd (MatchingService_removeUser i n db)))
          else (Inl (ForbiddenException ''not allowed operation''),
                snd (MatchingService_removeUser i currentUserId db)))"

text \<open>\<^verbatim>\<open>remove\<close>: only the owner reaches the delete.\<close>

definition MatchingController_remove ::
  "int \<Rightarrow> int \<Rightarrow> prisma \<Rightarrow> (error + unit) \<times> prisma" where
  "MatchingController_remove currentUserId i db =
     (case MatchingService_findOne i db of
        None \<Rightarrow> (Inl NotFoundException, db)
      | Some (m, members) \<Rightarrow>
          if ownerId m \<noteq> currentUserId
          then (Inl (ForbiddenException ''not allowed operation''), db)
          else MatchingService_remove i db)"

section \<open>Example states\<close>

text \<open>
  A table for the sweep at time 100: a scheduled matching whose date has passed, a quick
  matching without a date whose duration has run out, a quick matching with a past date
  whose duration has not run out, a scheduled matching in the future and a closed one.
\<close>

definition sweep_db :: prisma where
  "sweep_db =
     \<lparr>matching =
        [\<lparr>matchingType = YOTEI, duration = None, matchingDate = Some 50, id' = 1,
          ownerId = 7, status = OPEN, createdAt = 0\<rparr>,
         \<lparr>matchingType = QUICK, duration = Some 10, matchingDate = None, id' = 2,
          ownerId = 7, status = OPEN, createdAt = 0\<rparr>,
         \<lparr>matchingType = QUICK, duration = Some 500, matchingDate = Some 60, id' = 3,
          ownerId = 8, status = OPEN, createdAt = 0\<rparr>,
         \<lparr>matchingType = YOTEI, duration = None, matchingDate = Some 200, id' = 4,
          ownerId = 8, status = OPEN, createdAt = 0\<rparr>,
         \<lparr>matchingType = YOTEI, duration = None, matchingDate = Some 10, id' = 5,
          ownerId = 8, status = CLOSED, createdAt = 0\<rparr>],
      userMatching = [\<lparr>userId = 8, matchingId = 1\<rparr>]\<rparr>"

text \<open>A table for the list queries: two open matchings and a closed one.\<close>

definition list_db :: prisma where
  "list_db =
     \<lparr>matching =
        [\<lparr>matchingType = YOTEI, duration = None, matchingDate = Some 50, id' = 3,
          ownerId = 7, status = OPEN, createdAt = 0\<rparr>,
         \<lparr>matchingType = QUICK, duration = Some 10, matchingDate = None, id' = 1,
          ownerId = 7, status = CLOSED, createdAt = 0\<rparr>,
         \<lparr>matchingType = QUICK, duration = Some 20, matchingDate = None, id' = 2,
          ownerId = 8, status = OPEN, createdAt = 5\<rparr>],
      userMatching = [\<lparr>userId = 8, matchingId = 1\<rparr>, \<lparr>userId = 7, matchingId = 2\<rparr>]\<rparr>"

text \<open>A query for one page, with an optional status filter, no other filter, ordered by id.\<close>

definition page :: "nat \<Rightarrow> nat \<Rightarrow> MatchingStatus option \<Rightarrow> SearchQueryDto" where
  "page l off st =
     \<lparr>limit = l, offset = off, status' = st, otherFilters = (\<lambda>m. True), sort = id'\<rparr>"

text \<open>
  A table for the membership handlers: matching 5 is owned by user 1, and users 1 and 2
  are members of it.
\<close>

definition leave_db :: prisma where
  "leave_db =
     \<lparr>matching =
        [\<lparr>matchingType = YOTEI, duration = None, matchingDate = Some 50, id' = 5,
          ownerId = 1, status = OPEN, createdAt = 0\<rparr>],
      userMatching = [\<lparr>userId = 1, matchingId = 5\<rparr>, \<lparr>userId = 2, matchingId = 5\<rparr>]\<rparr>"

definition empty_db :: prisma where
  "empty_db = \<lparr>matching = [], userMatching = []\<rparr>"

definition dto :: "MatchingType \<Rightarrow> int option \<Rightarrow> int option \<Rightarrow> CreateMatchingDto" where
  "dto ty d t = \<lparr>matchingType = ty, duration = d, matchingDate = t\<rparr>"

section \<open>The periodic sweep\<close>

lemma updateStatus_where_iff:
  "updateStatus_where now m =
     (status m = OPEN \<and> (\<exists>d. matchingDate m = Some d \<and> d \<le> now))"
  by (auto simp: updateStatus_where_def split: option.splits)

lemma updateStatus_where_closed:
  "\<not> updateStatus_where now (m\<lparr>status := CLOSED\<rparr>)"
  by (simp add: updateStatus_where_def)

lemma updateStatus_twice:
  "MatchingRepository_updateStatus now (MatchingRepository_updateStatus now db) =
   MatchingRepository_updateStatus now db"
  by (simp add: MatchingRepository_updateStatus_def updateStatus_where_closed)

text \<open>
  Claim C1, as the code has it: the sweep keeps the table's rows in place and leaves the
  membership rows alone; it sets a row to \<open>CLOSED\<close> exactly when the row is \<open>OPEN\<close> and
  has a matching date that is not after \<open>now\<close>, whatever its type, and changes no other
  row and no other field. The creation time and the duration play no part.
\<close>

theorem updateStatus_closes_on_matchingDate:
  "length (matching (MatchingRepository_updateStatus now db)) = length (matching db) \<and>
   userMatching (MatchingRepository_updateStatus now db) = userMatching db \<and>
   (\<forall>k < length (matching db).
      matching (MatchingRepository_updateStatus now db) ! k =
        (if status (matching db ! k) = OPEN \<and>
            (\<exists>d. matchingDate (matching db ! k) = Some d \<and> d \<le> now)
         then (matching db ! k)\<lparr>status := CLOSED\<rparr>
         else matching db ! k))"
  by (simp add: MatchingRepository_updateStatus_def updateStatus_where_iff)

text \<open>At time 100 the first row of the example is closed and the fourth is left as it is.\<close>

theorem updateStatus_closes_on_matchingDate_witness:
  "(0::nat) < length (matching sweep_db) \<and> (3::nat) < length (matching sweep_db) \<and>
   status (matching sweep_db ! 0) = OPEN \<and> matchingDate (matching sweep_db ! 0) = Some 50 \<and>
   matching (MatchingRepository_updateStatus 100 sweep_db) ! 0 =
     (matching sweep_db ! 0)\<lparr>status := CLOSED\<rparr> \<and>
   matching (MatchingRepository_updateStatus 100 sweep_db) ! 3 = matching sweep_db ! 3"
  using updateStatus_closes_on_matchingDate [of 100 sweep_db]
  by (simp add: sweep_db_def)

text \<open>
  Claim C1 as stated fails: at time 100 the open quick matching created at 0 with
  duration 10 and no matching date stays \<open>OPEN\<close>, although its creation time plus its
  duration has passed; and the open quick matching with duration 500 and matching date 60
  is closed, although its creation time plus its duration has not passed.
\<close>

theorem updateStatus_quick_counterexample:
  "matchingType (matching sweep_db ! 1) = QUICK \<and>
   status (matching sweep_db ! 1) = OPEN \<and>
   createdAt (matching sweep_db ! 1) + the (duration (matching sweep_db ! 1)) \<le> 100 \<and>
   status (matching (MatchingRepository_updateStatus 100 sweep_db) ! 1) = OPEN \<and>
   matchingType (matching sweep_db ! 2) = QUICK \<and>
   status (matching sweep_db ! 2) = OPEN \<and>
   \<not> createdAt (matching sweep_db ! 2) + the (duration (matching sweep_db ! 2)) \<le> 100 \<and>
   status (matching (MatchingRepository_updateStatus 100 sweep_db) ! 2) = CLOSED"
  by (simp add: sweep_db_def MatchingRepository_updateStatus_def updateStatus_where_def)

text \<open>
  Claim C8: the sweep is idempotent. Run twice with the same clock it leaves the database
  it leaves when run once, so the set of closed matchings is the same, and a row that is
  already \<open>CLOSED\<close> is not changed by a run.
\<close>

theorem updateStatus_idempotent:
  "MatchingRepository_updateStatus now (MatchingRepository_updateStatus now db) =
     MatchingRepository_updateStatus now db \<and>
   {m \<in> set (matching (MatchingRepository_updateStatus now
                          (MatchingRepository_updateStatus now db))). status m = CLOSED} =
     {m \<in> set (matching (MatchingRepository_updateStatus now db)). status m = CLOSED} \<and>
   (\<forall>k < length (matching db). status (matching db ! k) = CLOSED \<longrightarrow>
      matching (MatchingRepository_updateStatus now db) ! k = matching db ! k)"
  by (simp add: updateStatus_twice)
    (simp add: MatchingRepository_updateStatus_def updateStatus_where_def)

theorem updateStatus_idempotent_witness:
  "(4::nat) < length (matching sweep_db) \<and> status (matching sweep_db ! 4) = CLOSED \<and>
   matching (MatchingRepository_updateStatus 100 sweep_db) ! 4 = matching sweep_db ! 4 \<and>
   MatchingRepository_updateStatus 100 (MatchingRepository_updateStatus 100 sweep_db) =
     MatchingRepository_updateStatus 100 sweep_db"
  using updateStatus_idempotent [of 100 sweep_db]
  by (simp add: sweep_db_def)

section \<open>Listing\<close>

text \<open>
  Claim C9: the envelope of \<^verbatim>\<open>listActive\<close> holds at most \<open>limit\<close> items, and its total
  is the number of rows that satisfy the query's predicate (\<open>status = OPEN\<close>), whatever
  the limit, the offset and the order are. The same holds of \<^verbatim>\<open>getMatchingOfUser\<close> and
  its predicate (\<open>ownerId = id\<close>).
\<close>

theorem listActive_page_and_total:
  "length (items (MatchingRepository_listActive q sortParam db)) \<le> limit q \<and>
   total' (MatchingRepository_listActive q sortParam db) =
     length (filter (\<lambda>m. status m = OPEN) (matching db)) \<and>
   total' (MatchingRepository_listActive q sortParam db) =
     total' (MatchingRepository_listActive q' sortParam' db) \<and>
   length (items (MatchingRepository_getMatchingOfUser u q db)) \<le> limit q \<and>
   total' (MatchingRepository_getMatchingOfUser u q db) =
     length (filter (\<lambda>m. ownerId m = u) (matching db)) \<and>
   total' (MatchingRepository_getMatchingOfUser u q db) =
     total' (MatchingRepository_getMatchingOfUser u q' db)"
  by (simp add: MatchingRepository_listActive_def MatchingRepository_getMatchingOfUser_def)

text \<open>A page of one item out of the two open rows of the example: the total stays 2.\<close>

theorem listActive_page_and_total_witness:
  "limit (page 1 0 None) = 1 \<and>
   length (items (MatchingRepository_listActive (page 1 0 None) id' list_db)) = 1 \<and>
   total' (MatchingRepository_listActive (page 1 0 None) id' list_db) = 2 \<and>
   total' (MatchingRepository_listActive (page 7 1 None) createdAt list_db) = 2"
  using listActive_page_and_total [of "page 1 0 None" id' list_db "page 7 1 None" createdAt]
  by (simp add: MatchingRepository_listActive_def page_def list_db_def)

lemma page_subset:
  "set (take n (drop k (sort_key f (filter P xs)))) \<subseteq> {x \<in> set xs. P x}"
proof
  fix x assume "x \<in> set (take n (drop k (sort_key f (filter P xs))))"
  then have "x \<in> set (drop k (sort_key f (filter P xs)))"
    by (rule in_set_takeD)
  then have "x \<in> set (sort_key f (filter P xs))"
    by (rule in_set_dropD)
  then show "x \<in> {x \<in> set xs. P x}" by simp
qed

lemma list_where_default:
  "status' q = None \<Longrightarrow> otherFilters q = (\<lambda>m. True) \<Longrightarrow>
   list_where q = (\<lambda>m. status m = OPEN)"
  by (auto simp: list_where_def fun_eq_iff)

lemma list_items_sound:
  "m \<in> set (items (MatchingController_list q db)) \<Longrightarrow>
   status m = (case status' q of None \<Rightarrow> OPEN | Some s \<Rightarrow> s) \<and> m \<in> set (matching db)"
  using page_subset [of "limit q" "offset q" "sort q" "list_where q" "matching db"]
  by (auto simp: MatchingController_list_def MatchingService_list_def list_where_def)

lemma list_items_complete:
  "offset q = 0 \<Longrightarrow> total' (MatchingController_list q db) \<le> limit q \<Longrightarrow>
   set (items (MatchingController_list q db)) =
     {m \<in> set (matching db).
        status m = (case status' q of None \<Rightarrow> OPEN | Some s \<Rightarrow> s) \<and> otherFilters q m}"
  by (auto simp: MatchingController_list_def MatchingService_list_def list_where_def)

lemma list_default_is_listActive:
  "status' q = None \<Longrightarrow> otherFilters q = (\<lambda>m. True) \<Longrightarrow>
   MatchingController_list q db = MatchingRepository_listActive q (sort q) db"
  by (simp add: MatchingController_list_def MatchingService_list_def
      MatchingRepository_listActive_def list_where_default)

text \<open>
  Claim C3, on the service's \<^verbatim>\<open>list\<close> as the spec describes it: every item of the
  result is a row of the table whose status is the requested one, or \<open>OPEN\<close> when the
  query has no status filter; a first page that is long enough holds every row of that
  status that passes the other filters; and a query without any filter returns what the
  repository's \<^verbatim>\<open>listActive\<close> returns.
\<close>

theorem list_status_filter:
  "(\<forall>m \<in> set (items (MatchingController_list q db)).
      status m = (case status' q of None \<Rightarrow> OPEN | Some s \<Rightarrow> s) \<and> m \<in> set (matching db)) \<and>
   (offset q = 0 \<and> total' (MatchingController_list q db) \<le> limit q \<longrightarrow>
      set (items (MatchingController_list q db)) =
        {m \<in> set (matching db).
           status m = (case status' q of None \<Rightarrow> OPEN | Some s \<Rightarrow> s) \<and> otherFilters q m}) \<and>
   (status' q = None \<and> otherFilters q = (\<lambda>m. True) \<longrightarrow>
      MatchingController_list q db = MatchingRepository_listActive q (sort q) db)"
  using list_items_sound [of _ q db] list_items_complete [of q db]
    list_default_is_listActive [of q db]
  by blast

text \<open>
  On the example, asking for \<open>CLOSED\<close> returns the closed row, and asking for nothing
  returns the two open rows, by id.
\<close>

theorem list_status_filter_witness:
  "items (MatchingController_list (page 5 0 (Some CLOSED)) list_db) = [matching list_db ! 1] \<and>
   status (matching list_db ! 1) = CLOSED \<and>
   items (MatchingController_list (page 5 0 None) list_db) =
     [matching list_db ! 2, matching list_db ! 0] \<and>
   status (matching list_db ! 2) = OPEN \<and> status (matching list_db ! 0) = OPEN \<and>
   MatchingController_list (page 5 0 None) list_db =
     MatchingRepository_listActive (page 5 0 None) id' list_db"
  using list_status_filter [of "page 5 0 (Some CLOSED)" list_db]
    list_status_filter [of "page 5 0 None" list_db]
  by (simp add: MatchingController_list_def MatchingService_list_def
      MatchingRepository_listActive_def list_where_def page_def list_db_def)

section \<open>Membership\<close>

lemma findOne_Some:
  "find (\<lambda>m. id' m = i) (matching db) = Some m \<Longrightarrow>
   MatchingService_findOne i db = Some (m, filter (\<lambda>r. matchingId r = i) (userMatching db))"
  by (simp add: MatchingService_findOne_def MatchingRepository_findOne_def)

lemma findOne_None:
  "find (\<lambda>m. id' m = i) (matching db) = None \<Longrightarrow> MatchingRepository_findOne i db = None"
  by (simp add: MatchingRepository_findOne_def)

lemma filter_absent: "x \<notin> set xs \<Longrightarrow> filter (\<lambda>r. r \<noteq> x) xs = xs"
  by (induction xs) auto

lemma snd_removeUser:
  "snd (MatchingService_removeUser i u db) =
   db\<lparr>userMatching := filter (\<lambda>r. r \<noteq> \<lparr>userId = u, matchingId = i\<rparr>) (userMatching db)\<rparr>"
  by (simp add: MatchingService_removeUser_def MatchingRepository_removeUserFromMatching_def
      filter_absent)

text \<open>
  Claim C2: when the matching exists and the caller is not its owner, \<^verbatim>\<open>leaveMatching\<close>
  ends with \<open>ForbiddenException\<close> "not allowed operation", and the database it leaves is
  the old one without the caller's own membership row of that matching: the removal stays
  although the call fails. Every other row is kept.
\<close>

theorem leaveMatching_member_removed_then_forbidden:
  assumes "find (\<lambda>m. id' m = i) (matching db) = Some m"
    and "currentUserId \<noteq> ownerId m"
  shows "MatchingController_leaveMatching currentUserId i uid db =
           (Inl (ForbiddenException ''not allowed operation''),
            db\<lparr>userMatching :=
                 filter (\<lambda>r. r \<noteq> \<lparr>userId = currentUserId, matchingId = i\<rparr>)
                   (userMatching db)\<rparr>) \<and>
         \<lparr>userId = currentUserId, matchingId = i\<rparr> \<notin>
           set (userMatching (snd (MatchingController_leaveMatching currentUserId i uid db)))"
  using assms
  by (simp add: MatchingController_leaveMatching_def findOne_Some snd_removeUser)

text \<open>User 2, a member and not the owner of matching 5, leaves it.\<close>

theorem leaveMatching_member_removed_then_forbidden_witness:
  "find (\<lambda>m. id' m = 5) (matching leave_db) = Some (matching leave_db ! 0) \<and>
   (2::int) \<noteq> ownerId (matching leave_db ! 0) \<and>
   \<lparr>userId = 2, matchingId = 5\<rparr> \<in> set (userMatching leave_db) \<and>
   MatchingController_leaveMatching 2 5 NaN leave_db =
     (Inl (ForbiddenException ''not allowed operation''),
      leave_db\<lparr>userMatching := [\<lparr>userId = 1, matchingId = 5\<rparr>]\<rparr>)"
  using leaveMatching_member_removed_then_forbidden
    [of 5 leave_db "matching leave_db ! 0" 2 NaN]
  by (simp add: leave_db_def)

text \<open>
  Claim C6, on the service's \<^verbatim>\<open>joinUser\<close> as the spec describes it: when no matching
  has the id, \<^verbatim>\<open>joinMatching\<close> ends with \<open>NotFoundException\<close> and the database, so the
  membership table too, is unchanged.
\<close>

theorem joinMatching_not_found:
  "find (\<lambda>m. id' m = i) (matching db) = None \<Longrightarrow>
   MatchingController_joinMatching currentUserId i db = (Inl NotFoundException, db)"
  by (simp add: MatchingController_joinMatching_def MatchingService_joinUser_def findOne_None)

theorem joinMatching_not_found_witness:
  "find (\<lambda>m. id' m = 6) (matching leave_db) = None \<and>
   MatchingController_joinMatching 2 6 leave_db = (Inl NotFoundException, leave_db)"
  using joinMatching_not_found [of 6 leave_db 2]
  by (simp add: leave_db_def)

text \<open>
  Claim C7: when the matching exists and the caller is not its owner, \<^verbatim>\<open>remove\<close> ends
  with \<open>ForbiddenException\<close> and the database is unchanged: neither the matching nor a
  membership row is deleted.
\<close>

theorem remove_non_owner_forbidden:
  "find (\<lambda>m. id' m = i) (matching db) = Some m \<Longrightarrow> ownerId m \<noteq> currentUserId \<Longrightarrow>
   MatchingController_remove currentUserId i db =
     (Inl (ForbiddenException ''not allowed operation''), db)"
  by (simp add: MatchingController_remove_def findOne_Some)

theorem remove_non_owner_forbidden_witness:
  "find (\<lambda>m. id' m = 5) (matching leave_db) = Some (matching leave_db ! 0) \<and>
   ownerId (matching leave_db ! 0) \<noteq> 2 \<and>
   MatchingController_remove 2 5 leave_db =
     (Inl (ForbiddenException ''not allowed operation''), leave_db)"
  using remove_non_owner_forbidden [of 5 leave_db "matching leave_db ! 0" 2]
  by (simp add: leave_db_def)

text \<open>
  Claim C10: when the matching exists, the caller is its owner and \<^verbatim>\<open>+userId\<close> is
  \<open>NaN\<close> (the parameter is absent or no numeral) or zero, \<^verbatim>\<open>leaveMatching\<close> ends
  with \<open>BadRequestException\<close> "missing member id" and the database is unchanged: no
  membership row is removed, and in particular the owner's own membership row, if there
  is one, is still there.
\<close>

theorem leaveMatching_owner_missing_member_id:
  "find (\<lambda>m. id' m = i) (matching db) = Some m \<Longrightarrow> currentUserId = ownerId m \<Longrightarrow>
   uid = NaN \<or> uid = Num 0 \<Longrightarrow>
   MatchingController_leaveMatching currentUserId i uid db =
     (Inl (BadRequestException ''missing member id''), db) \<and>
   userMatching (snd (MatchingController_leaveMatching currentUserId i uid db)) =
     userMatching db \<and>
   (\<lparr>userId = currentUserId, matchingId = i\<rparr> \<in>
      set (userMatching (snd (MatchingController_leaveMatching currentUserId i uid db)))) =
   (\<lparr>userId = currentUserId, matchingId = i\<rparr> \<in> set (userMatching db))"
  by (auto simp: MatchingController_leaveMatching_def findOne_Some)

text \<open>
  User 1 owns matching 5 and is a member of it; without a member id, and with the member
  id 0, the call fails and the owner's row stays.
\<close>

theorem leaveMatching_owner_missing_member_id_witness:
  "find (\<lambda>m. id' m = 5) (matching leave_db) = Some (matching leave_db ! 0) \<and>
   (1::int) = ownerId (matching leave_db ! 0) \<and>
   MatchingController_leaveMatching 1 5 NaN leave_db =
     (Inl (BadRequestException ''missing member id''), leave_db) \<and>
   MatchingController_leaveMatching 1 5 (Num 0) leave_db =
     (Inl (BadRequestException ''missing member id''), leave_db) \<and>
   \<lparr>userId = 1, matchingId = 5\<rparr> \<in>
     set (userMatching (snd (MatchingController_leaveMatching 1 5 NaN leave_db))) \<and>
   \<lparr>userId = 1, matchingId = 5\<rparr> \<in>
     set (userMatching (snd (MatchingController_leaveMatching 1 5 (Num 0) leave_db)))"
  using leaveMatching_owner_missing_member_id [of 5 leave_db "matching leave_db ! 0" 1 NaN]
    leaveMatching_owner_missing_member_id [of 5 leave_db "matching leave_db ! 0" 1 "Num 0"]
  by (simp add: leave_db_def)

section \<open>Creation\<close>

text \<open>The three checks of \<^verbatim>\<open>create\<close>, with the truthiness tests spelled out.\<close>

lemma create_cases:
  "MatchingController_create now u d db =
     (if (matchingType d = QUICK \<and> (duration d = None \<or> duration d = Some 0)) \<or>
         (matchingType d = YOTEI \<and> matchingDate d = None)
      then (Inl (BadRequestException ''Missing duration or matching date''), db)
      else if \<exists>n. duration d = Some n \<and> n < 0
      then (Inl (BadRequestException ''Invalid duration''), db)
      else if \<exists>t. matchingDate d = Some t \<and> t < now
      then (Inl (BadRequestException ''Invalid matching date''), db)
      else (Inr (fst (MatchingRepository_create now u d db)),
            snd (MatchingRepository_create now u d db)))"
  by (auto simp: MatchingController_create_def MatchingService_create_def not_opt_def
      split: option.splits prod.splits)

text \<open>
  Claim C4, as the code has it, for a create input with a duration. \<^verbatim>\<open>create\<close> ends
  with "Invalid duration" exactly when the duration is negative and the input is not a
  scheduled one without a date; a scheduled input without a date is refused by the first
  check, with "Missing duration or matching date", whatever its duration; so a negative
  duration always fails with a \<open>BadRequestException\<close> and persists nothing. A quick
  input with duration zero is refused by the first check, with "Missing duration or
  matching date". A duration that is not negative passes the duration check otherwise:
  a scheduled input with a date not before \<open>now\<close>, also with duration zero, and a quick
  input with a positive duration and no date before \<open>now\<close> are persisted as an \<open>OPEN\<close>
  matching and returned, and with a date before \<open>now\<close> they end with "Invalid matching
  date".
\<close>

theorem create_duration_check:
  assumes "duration d = Some n"
  shows "(fst (MatchingController_create now u d db) =
            Inl (BadRequestException ''Invalid duration''))
           = (n < 0 \<and> \<not> (matchingType d = YOTEI \<and> matchingDate d = None)) \<and>
         (n < 0 \<longrightarrow>
            (\<exists>msg. MatchingController_create now u d db =
                     (Inl (BadRequestException msg), db))) \<and>
         (matchingType d = YOTEI \<and> matchingDate d = None \<longrightarrow>
            MatchingController_create now u d db =
              (Inl (BadRequestException ''Missing duration or matching date''), db)) \<and>
         (n = 0 \<and> matchingType d = QUICK \<longrightarrow>
            MatchingController_create now u d db =
              (Inl (BadRequestException ''Missing duration or matching date''), db)) \<and>
         (0 \<le> n \<and> matchingType d = YOTEI \<and> matchingDate d = Some t \<and> now \<le> t \<longrightarrow>
            MatchingController_create now u d db =
              (Inr \<lparr>matchingType = YOTEI, duration = Some n, matchingDate = Some t,
                    id' = next_id (matching db), ownerId = u, status = OPEN,
                    createdAt = now\<rparr>,
               db\<lparr>matching := matching db @
                    [\<lparr>matchingType = YOTEI, duration = Some n, matchingDate = Some t,
                      id' = next_id (matching db), ownerId = u, status = OPEN,
                      createdAt = now\<rparr>]\<rparr>)) \<and>
         (0 < n \<and> matchingType d = QUICK \<and>
          (matchingDate d = None \<or> (\<exists>t'. matchingDate d = Some t' \<and> now \<le> t')) \<longrightarrow>
            MatchingController_create now u d db =
              (Inr \<lparr>matchingType = QUICK, duration = Some n, matchingDate = matchingDate d,
                    id' = next_id (matching db), ownerId = u, status = OPEN,
                    createdAt = now\<rparr>,
               db\<lparr>matching := matching db @
                    [\<lparr>matchingType = QUICK, duration = Some n, matchingDate = matchingDate d,
                      id' = next_id (matching db), ownerId = u, status = OPEN,
                      createdAt = now\<rparr>]\<rparr>)) \<and>
         (0 \<le> n \<and> \<not> (n = 0 \<and> matchingType d = QUICK) \<and>
          (\<exists>t'. matchingDate d = Some t' \<and> t' < now) \<longrightarrow>
            MatchingController_create now u d db =
              (Inl (BadRequestException ''Invalid matching date''), db))"
proof -
  have invalid: "(fst (MatchingController_create now u d db) =
            Inl (BadRequestException ''Invalid duration''))
           = (n < 0 \<and> \<not> (matchingType d = YOTEI \<and> matchingDate d = None))"
    using assms by (cases "matchingType d") (auto simp: create_cases)
  have negative: "n < 0 \<longrightarrow>
            (\<exists>msg. MatchingController_create now u d db =
                     (Inl (BadRequestException msg), db))"
    using assms by (cases "matchingType d") (auto simp: create_cases)
  have no_date: "matchingType d = YOTEI \<and> matchingDate d = None \<longrightarrow>
            MatchingController_create now u d db =
              (Inl (BadRequestException ''Missing duration or matching date''), db)"
    by (simp add: create_cases)
  have quick_zero: "n = 0 \<and> matchingType d = QUICK \<longrightarrow>
            MatchingController_create now u d db =
              (Inl (BadRequestException ''Missing duration or matching date''), db)"
    using assms by (simp add: create_cases)
  have yotei_ok: "0 \<le> n \<and> matchingType d = YOTEI \<and> matchingDate d = Some t \<and> now \<le> t \<longrightarrow>
            MatchingController_create now u d db =
              (Inr \<lparr>matchingType = YOTEI, duration = Some n, matchingDate = Some t,
                    id' = next_id (matching db), ownerId = u, status = OPEN,
                    createdAt = now\<rparr>,
               db\<lparr>matching := matching db @
                    [\<lparr>matchingType = YOTEI, duration = Some n, matchingDate = Some t,
                      id' = next_id (matching db), ownerId = u, status = OPEN,
                      createdAt = now\<rparr>]\<rparr>)"
    using assms by (auto simp: create_cases MatchingRepository_create_def Let_def)
  have quick_ok: "0 < n \<and> matchingType d = QUICK \<and>
          (matchingDate d = None \<or> (\<exists>t'. matchingDate d = Some t' \<and> now \<le> t')) \<longrightarrow>
            MatchingController_create now u d db =
              (Inr \<lparr>matchingType = QUICK, duration = Some n, matchingDate = matchingDate d,
                    id' = next_id (matching db), ownerId = u, status = OPEN,
                    createdAt = now\<rparr>,
               db\<lparr>matching := matching db @
                    [\<lparr>matchingType = QUICK, duration = Some n, matchingDate = matchingDate d,
                      id' = next_id (matching db), ownerId = u, status = OPEN,
                      createdAt = now\<rparr>]\<rparr>)"
    using assms by (auto simp: create_cases MatchingRepository_create_def Let_def)
  have past: "0 \<le> n \<and> \<not> (n = 0 \<and> matchingType d = QUICK) \<and>
          (\<exists>t'. matchingDate d = Some t' \<and> t' < now) \<longrightarrow>
            MatchingController_create now u d db =
              (Inl (BadRequestException ''Invalid matching date''), db)"
    using assms by (cases "matchingType d") (auto simp: create_cases)
  from invalid negative no_date quick_zero yotei_ok quick_ok past show ?thesis
    by (intro conjI)
qed

text \<open>
  At time 1000 on the empty database: a scheduled input with duration zero and the date
  2000 is persisted; a quick input with duration -3 ends with "Invalid duration"; a
  scheduled input with duration -3 and no date ends with "Missing duration or matching
  date"; a quick input with duration 30 and no date is persisted.
\<close>

theorem create_duration_check_witness:
  "duration (dto YOTEI (Some 0) (Some 2000)) = Some 0 \<and>
   MatchingController_create 1000 7 (dto YOTEI (Some 0) (Some 2000)) empty_db =
     (Inr \<lparr>matchingType = YOTEI, duration = Some 0, matchingDate = Some 2000, id' = 1,
           ownerId = 7, status = OPEN, createdAt = 1000\<rparr>,
      \<lparr>matching = [\<lparr>matchingType = YOTEI, duration = Some 0, matchingDate = Some 2000,
           id' = 1, ownerId = 7, status = OPEN, createdAt = 1000\<rparr>], userMatching = []\<rparr>) \<and>
   duration (dto QUICK (Some (- 3)) (Some 10)) = Some (- 3) \<and>
   MatchingController_create 1000 7 (dto QUICK (Some (- 3)) (Some 10)) empty_db =
     (Inl (BadRequestException ''Invalid duration''), empty_db) \<and>
   duration (dto YOTEI (Some (- 3)) None) = Some (- 3) \<and>
   MatchingController_create 1000 7 (dto YOTEI (Some (- 3)) None) empty_db =
     (Inl (BadRequestException ''Missing duration or matching date''), empty_db) \<and>
   duration (dto QUICK (Some 30) None) = Some 30 \<and>
   MatchingController_create 1000 7 (dto QUICK (Some 30) None) empty_db =
     (Inr \<lparr>matchingType = QUICK, duration = Some 30, matchingDate = None, id' = 1,
           ownerId = 7, status = OPEN, createdAt = 1000\<rparr>,
      \<lparr>matching = [\<lparr>matchingType = QUICK, duration = Some 30, matchingDate = None,
           id' = 1, ownerId = 7, status = OPEN, createdAt = 1000\<rparr>], userMatching = []\<rparr>)"
  using create_duration_check
      [of "dto YOTEI (Some 0) (Some 2000)" 0 1000 7 empty_db 2000]
    create_duration_check [of "dto QUICK (Some (- 3)) (Some 10)" "- 3" 1000 7 empty_db]
    create_duration_check [of "dto YOTEI (Some (- 3)) None" "- 3" 1000 7 empty_db]
    create_duration_check [of "dto QUICK (Some 30) None" 30 1000 7 empty_db]
  by (simp add: dto_def empty_db_def next_id_def create_cases)

text \<open>
  Claim C4 as stated fails: a quick input with duration zero, which is not negative, is
  rejected with a \<open>BadRequestException\<close>.
\<close>

theorem create_quick_zero_duration_rejected:
  "matchingType (dto QUICK (Some 0) None) = QUICK \<and>
   duration (dto QUICK (Some 0) None) = Some 0 \<and> \<not> (0::int) < 0 \<and>
   MatchingController_create 1000 7 (dto QUICK (Some 0) None) empty_db =
     (Inl (BadRequestException ''Missing duration or matching date''), empty_db)"
  by (simp add: dto_def MatchingController_create_def not_opt_def)




end
